theory Spec2Isabelle
  imports Main "HOL-Library.Sublist"
begin

section \<open>Shared data\<close>

text \<open>
  JSON values, as \<^verbatim>\<open>request.json()\<close> and the tool protocol produce them. An object
  keeps its members in source order; a Python dict built from it keeps the last value of
  a repeated key.
\<close>

datatype json =
    JNull
  | JBool bool
  | JNum int
  | JStr string
  | JArr "json list"
  | JObj "(string \<times> json) list"

text \<open>Python exceptions, by class, with the message \<^verbatim>\<open>str(e)\<close> returns.\<close>

datatype exn =
    ValueError string
  | IndexError string
  | TypeError string
  | KeyError string
  | ExternalError string

fun str_exn :: "exn \<Rightarrow> string" where
  "str_exn (ValueError m) = m"
| "str_exn (IndexError m) = m"
| "str_exn (TypeError m) = m"
| "str_exn (KeyError m) = m"
| "str_exn (ExternalError m) = m"

section \<open>The client: \<^verbatim>\<open>src/clients/client_sse.py\<close>\<close>

subsection \<open>Data model\<close>

text \<open>
  A content block of a model response. The loops of the client look at
  \<^verbatim>\<open>content.type\<close>: \<^verbatim>\<open>"text"\<close> blocks carry \<^verbatim>\<open>text\<close>, \<^verbatim>\<open>"tool_use"\<close> blocks carry
  \<^verbatim>\<open>id\<close>, \<^verbatim>\<open>name\<close> and \<^verbatim>\<open>input\<close>; a block of any other type falls through both
  branches.
\<close>

datatype block =
    Text string
  | ToolUse string string json
  | OtherBlock string

text \<open>
  The dict appended to \<^verbatim>\<open>tool_results\<close>. On the success path the dict has no
  \<^verbatim>\<open>is_error\<close> key, so the field is optional; \<^verbatim>\<open>content\<close> is either the session's
  \<^verbatim>\<open>result.content\<close> or a Python string.
\<close>

datatype envelope_content = RawContent json | TextContent string

record envelope =
  tool_use_id :: string
  content :: envelope_content
  is_error :: "bool option"

datatype role = User | Assistant

datatype payload =
    Plain string
  | Blocks "block list"
  | Results "envelope list"

datatype turn = Turn role payload

text \<open>
  One entry of \<^verbatim>\<open>execution_log\<close>. Each constructor stands for one f-string of the
  source: \<^verbatim>\<open>"Claude: {text}"\<close>, \<^verbatim>\<open>"Calling tool '{name}' with args: {args}"\<close>,
  \<^verbatim>\<open>"Tool result: {result.content}"\<close>, \<^verbatim>\<open>"Tool error: {str(e)}"\<close> and
  \<^verbatim>\<open>"Reached maximum iterations ({max_iterations})"\<close>. The function returns the
  entries joined by newlines; the model returns the list.
\<close>

datatype log_line =
    LogClaude string
  | LogCalling string json
  | LogToolResult json
  | LogToolError string
  | LogCeiling nat

record tool =
  name :: string
  description :: string
  inputSchema :: json

record api_tool =
  api_name :: string
  api_description :: string
  input_schema :: json

record request =
  model :: string
  max_tokens :: nat
  messages :: "turn list"
  tools :: "api_tool list option"

text \<open>
  What \<^verbatim>\<open>process_query\<close> hands back as the new summary and receives as
  \<^verbatim>\<open>conversation_summary\<close>: \<^verbatim>\<open>None\<close> (the parameter's default), a Python string
  (the sentinel of \<^verbatim>\<open>chat_loop\<close>), or a content block
  (\<^verbatim>\<open>summary.content[0]\<close>).
\<close>

datatype summary_value =
    NoSummary
  | StrSummary string
  | BlockSummary block

text \<open>
  The outside world: the tool session and the model API. Every call takes the world
  state and returns the new one with either the value or the exception raised.
  \<^verbatim>\<open>block_str\<close> is \<^verbatim>\<open>str()\<close> of a content block object, which the SDK defines.
\<close>

record 'w env =
  list_tools :: "'w \<Rightarrow> (exn + tool list) \<times> 'w"
  call_tool :: "'w \<Rightarrow> string \<Rightarrow> json \<Rightarrow> (exn + json) \<times> 'w"
  create :: "'w \<Rightarrow> request \<Rightarrow> (exn + block list) \<times> 'w"
  block_str :: "block \<Rightarrow> string"

definition max_iterations :: nat where
  "max_iterations = 20"

definition model_id :: string where
  "model_id = ''claude-3-5-sonnet-20241022''"

definition summary_prompt :: string where
  "summary_prompt = ''Please provide a brief summary of the conversation so far. Make sure to prioritize the user's goals, actions taken, and any important data like document keys that will be important for the continuation of work. List the most recent actions first''"

definition context_prefix :: string where
  "context_prefix = ''Previous conversation context: ''"

definition sentinel :: string where
  "sentinel = ''None. Start of a new conversation.''"

subsection \<open>\<^verbatim>\<open>process_query\<close>\<close>

text \<open>Truth value of \<^verbatim>\<open>conversation_summary\<close> in \<^verbatim>\<open>if conversation_summary:\<close>.\<close>

fun truthy :: "summary_value \<Rightarrow> bool" where
  "truthy NoSummary = False"
| "truthy (StrSummary s) = (s \<noteq> [])"
| "truthy (BlockSummary b) = True"

text \<open>The value an f-string shows for \<^verbatim>\<open>{conversation_summary}\<close>.\<close>

fun format_summary :: "'w env \<Rightarrow> summary_value \<Rightarrow> string" where
  "format_summary env NoSummary = ''None''"
| "format_summary env (StrSummary s) = s"
| "format_summary env (BlockSummary b) = block_str env b"

definition initial_messages :: "'w env \<Rightarrow> string \<Rightarrow> summary_value \<Rightarrow> turn list" where
  "initial_messages env query conversation_summary =
     (if truthy conversation_summary
      then [Turn Assistant (Plain (context_prefix @ format_summary env conversation_summary))]
      else [])
     @ [Turn User (Plain query)]"

definition available_tools :: "tool list \<Rightarrow> api_tool list" where
  "available_tools ts =
     map (\<lambda>t. \<lparr>api_name = name t, api_description = description t,
                input_schema = inputSchema t\<rparr>) ts"

text \<open>
  Lines printed on the operator console, one constructor per \<^verbatim>\<open>print\<close> call of the
  source.
\<close>

datatype out_line =
    OutCompressing
  | OutProcessing string
  | OutIteration nat
  | OutClaude string
  | OutCalling string
  | OutSuccess
  | OutToolError string
  | OutTaskComplete
  | OutCeiling nat
  | OutStreamingMode bool
  | OutCurrentContext string
  | OutContextReset
  | OutResponse "log_line list"
  | OutError string
  | OutTraceback

text \<open>
  One tool invocation: the \<^verbatim>\<open>try\<close>/\<^verbatim>\<open>except Exception\<close> around
  \<^verbatim>\<open>self.session.call_tool\<close>, with the dict appended to \<^verbatim>\<open>tool_results\<close> and the
  log entry of the outcome.
\<close>

definition invoke ::
  "'w env \<Rightarrow> 'w \<Rightarrow> string \<Rightarrow> string \<Rightarrow> json \<Rightarrow> (envelope \<times> log_line) \<times> 'w" where
  "invoke env w tid tool_name tool_args =
     (case call_tool env w tool_name tool_args of
        (Inr result, w') \<Rightarrow>
          ((\<lparr>tool_use_id = tid, content = RawContent result, is_error = None\<rparr>,
            LogToolResult result), w')
      | (Inl e, w') \<Rightarrow>
          ((\<lparr>tool_use_id = tid, content = TextContent (''Error: '' @ str_exn e),
             is_error = Some True\<rparr>,
            LogToolError (str_exn e)), w'))"

text \<open>
  The \<^verbatim>\<open>for content in response.content\<close> loop of one round. The state is the world,
  \<^verbatim>\<open>messages\<close>, \<^verbatim>\<open>execution_log\<close>, \<^verbatim>\<open>has_tool_calls\<close> and \<^verbatim>\<open>tool_results\<close>.
\<close>

type_synonym 'w round_state = "'w \<times> turn list \<times> log_line list \<times> bool \<times> envelope list"

fun process_content :: "'w env \<Rightarrow> block list \<Rightarrow> 'w round_state \<Rightarrow> 'w round_state" where
  "process_content env [] st = st"
| "process_content env (Text t # rest) (w, msgs, log, has_tool_calls, tool_results) =
     process_content env rest
       (w, msgs @ [Turn Assistant (Plain t)], log @ [LogClaude t], has_tool_calls, tool_results)"
| "process_content env (ToolUse tid tool_name tool_args # rest)
       (w, msgs, log, has_tool_calls, tool_results) =
     (case invoke env w tid tool_name tool_args of
        ((result, outcome), w') \<Rightarrow>
          process_content env rest
            (w', msgs, log @ [LogCalling tool_name tool_args, outcome], True,
             tool_results @ [result]))"
| "process_content env (OtherBlock ty # rest) st = process_content env rest st"

text \<open>
  The body of the \<^verbatim>\<open>while\<close> loop: one model round. \<^verbatim>\<open>Raised\<close> is an exception of
  the model call, which nothing in the loop catches; \<^verbatim>\<open>Continue\<close> is the
  \<^verbatim>\<open>has_tool_calls\<close> branch; \<^verbatim>\<open>Done\<close> is the \<^verbatim>\<open>break\<close>.
\<close>

datatype 'w round_result =
    Raised exn 'w
  | Continue 'w "turn list" "log_line list"
  | Done 'w "turn list" "log_line list"

definition round_request :: "api_tool list \<Rightarrow> turn list \<Rightarrow> request" where
  "round_request ts msgs =
     \<lparr>model = model_id, max_tokens = 1000, messages = msgs, tools = Some ts\<rparr>"

definition loop_body ::
  "'w env \<Rightarrow> api_tool list \<Rightarrow> 'w \<Rightarrow> turn list \<Rightarrow> log_line list \<Rightarrow> 'w round_result" where
  "loop_body env ts w msgs log =
     (case create env w (round_request ts msgs) of
        (Inl e, w1) \<Rightarrow> Raised e w1
      | (Inr response, w1) \<Rightarrow>
          (case process_content env response (w1, msgs, log, False, []) of
             (w2, msgs2, log2, has_tool_calls, tool_results) \<Rightarrow>
               if has_tool_calls then
                 Continue w2
                   (msgs2 @ [Turn Assistant (Blocks response), Turn User (Results tool_results)])
                   log2
               else Done w2 msgs2 log2))"

text \<open>
  The \<^verbatim>\<open>while iteration < self.max_iterations\<close> loop. It returns the final
  \<^verbatim>\<open>iteration\<close>, \<^verbatim>\<open>messages\<close> and \<^verbatim>\<open>execution_log\<close>, or the exception raised.
\<close>

function turn_loop ::
  "'w env \<Rightarrow> api_tool list \<Rightarrow> nat \<Rightarrow> 'w \<Rightarrow> turn list \<Rightarrow> log_line list
     \<Rightarrow> (exn + nat \<times> turn list \<times> log_line list) \<times> 'w" where
  "turn_loop env ts iteration w msgs log =
     (if iteration < max_iterations then
        (case loop_body env ts w msgs log of
           Raised e w1 \<Rightarrow> (Inl e, w1)
         | Continue w2 msgs2 log2 \<Rightarrow> turn_loop env ts (Suc iteration) w2 msgs2 log2
         | Done w2 msgs2 log2 \<Rightarrow> (Inr (Suc iteration, msgs2, log2), w2))
      else (Inr (iteration, msgs, log), w))"
  by pat_completeness auto
termination
  by (relation "measure (\<lambda>(env, ts, iteration, w, msgs, log). max_iterations - iteration)") auto

declare turn_loop.simps [simp del]

text \<open>
  The summarization request and \<^verbatim>\<open>summary.content[0]\<close>; indexing an empty content
  list raises \<^verbatim>\<open>IndexError\<close>.
\<close>

definition summary_request :: "turn list \<Rightarrow> request" where
  "summary_request msgs =
     \<lparr>model = model_id, max_tokens = 200,
      messages = msgs @ [Turn User (Plain summary_prompt)], tools = None\<rparr>"

definition summarize :: "'w env \<Rightarrow> 'w \<Rightarrow> turn list \<Rightarrow> (exn + summary_value) \<times> 'w" where
  "summarize env w msgs =
     (case create env w (summary_request msgs) of
        (Inl e, w') \<Rightarrow> (Inl e, w')
      | (Inr [], w') \<Rightarrow> (Inl (IndexError ''list index out of range''), w')
      | (Inr (b # bs), w') \<Rightarrow> (Inr (BlockSummary b), w'))"

text \<open>
  \<^verbatim>\<open>process_query\<close> returns the value or the exception, the lines it printed, and
  the world.
\<close>

definition process_query ::
  "'w env \<Rightarrow> string \<Rightarrow> summary_value \<Rightarrow> 'w
     \<Rightarrow> (exn + log_line list \<times> summary_value) \<times> out_line list \<times> 'w" where
  "process_query env query conversation_summary w =
     (case list_tools env w of
        (Inl e, w1) \<Rightarrow> (Inl e, [], w1)
      | (Inr ts, w1) \<Rightarrow>
          (case turn_loop env (available_tools ts) 0 w1
                  (initial_messages env query conversation_summary) [] of
             (Inl e, w2) \<Rightarrow> (Inl e, [], w2)
           | (Inr (iteration, msgs, log), w2) \<Rightarrow>
               (case summarize env w2 msgs of
                  (Inl e, w3) \<Rightarrow> (Inl e, [OutCompressing], w3)
                | (Inr new_summary, w3) \<Rightarrow>
                    (Inr (if iteration \<ge> max_iterations
                          then log @ [LogCeiling max_iterations] else log,
                          new_summary),
                     [OutCompressing], w3))))"

subsection \<open>\<^verbatim>\<open>process_query_with_streaming\<close>\<close>

text \<open>
  The \<^verbatim>\<open>for\<close> loop of a streaming round. Each tool call appends two turns to
  \<^verbatim>\<open>messages\<close>: an assistant turn whose content is the list object
  \<^verbatim>\<open>assistant_message_content\<close>, and a user turn with the one envelope. The list object
  is shared by every assistant turn of the round and keeps growing until the \<^verbatim>\<open>for\<close>
  loop ends, when it holds the whole response; \<^verbatim>\<open>messages\<close> is read only by the next
  model call. So the loop collects the envelopes, and the round appends, for each, the
  assistant turn with the whole response and the user turn.
\<close>

type_synonym 'w stream_state = "'w \<times> envelope list \<times> bool \<times> out_line list"

fun stream_content :: "'w env \<Rightarrow> block list \<Rightarrow> 'w stream_state \<Rightarrow> 'w stream_state" where
  "stream_content env [] st = st"
| "stream_content env (Text t # rest) (w, pending, has_tool_calls, out) =
     stream_content env rest (w, pending, has_tool_calls, out @ [OutClaude t])"
| "stream_content env (ToolUse tid tool_name tool_args # rest) (w, pending, has_tool_calls, out) =
     (case call_tool env w tool_name tool_args of
        (Inr result, w') \<Rightarrow>
          stream_content env rest
            (w', pending @ [\<lparr>tool_use_id = tid, content = RawContent result, is_error = None\<rparr>],
             True, out @ [OutCalling tool_name, OutSuccess])
      | (Inl e, w') \<Rightarrow>
          stream_content env rest
            (w', pending @ [\<lparr>tool_use_id = tid, content = TextContent (''Error: '' @ str_exn e),
                              is_error = Some True\<rparr>],
             True, out @ [OutCalling tool_name, OutToolError (str_exn e)]))"
| "stream_content env (OtherBlock ty # rest) st = stream_content env rest st"

definition stream_turns :: "block list \<Rightarrow> envelope list \<Rightarrow> turn list" where
  "stream_turns response pending =
     concat (map (\<lambda>r. [Turn Assistant (Blocks response), Turn User (Results [r])]) pending)"

function stream_loop ::
  "'w env \<Rightarrow> api_tool list \<Rightarrow> nat \<Rightarrow> 'w \<Rightarrow> turn list \<Rightarrow> out_line list
     \<Rightarrow> (exn + nat) \<times> out_line list \<times> 'w" where
  "stream_loop env ts iteration w msgs out =
     (if iteration < max_iterations then
        (case create env w (round_request ts msgs) of
           (Inl e, w1) \<Rightarrow> (Inl e, out @ [OutIteration (Suc iteration)], w1)
         | (Inr response, w1) \<Rightarrow>
             (case stream_content env response
                     (w1, [], False, out @ [OutIteration (Suc iteration)]) of
                (w2, pending, has_tool_calls, out2) \<Rightarrow>
                  if \<not> has_tool_calls then (Inr (Suc iteration), out2 @ [OutTaskComplete], w2)
                  else stream_loop env ts (Suc iteration) w2
                         (msgs @ stream_turns response pending) out2))
      else (Inr iteration, out, w))"
  by pat_completeness auto
termination
  by (relation "measure (\<lambda>(env, ts, iteration, w, msgs, out). max_iterations - iteration)") auto

declare stream_loop.simps [simp del]

definition process_query_with_streaming ::
  "'w env \<Rightarrow> string \<Rightarrow> 'w \<Rightarrow> (exn + string) \<times> out_line list \<times> 'w" where
  "process_query_with_streaming env query w =
     (case list_tools env w of
        (Inl e, w1) \<Rightarrow> (Inl e, [], w1)
      | (Inr ts, w1) \<Rightarrow>
          (case stream_loop env (available_tools ts) 0 w1 [Turn User (Plain query)]
                  [OutProcessing query] of
             (Inl e, out, w2) \<Rightarrow> (Inl e, out, w2)
           | (Inr iteration, out, w2) \<Rightarrow>
               (Inr ''Task completed!'',
                if iteration \<ge> max_iterations then out @ [OutCeiling max_iterations] else out,
                w2)))"

subsection \<open>\<^verbatim>\<open>chat_loop\<close>\<close>

text \<open>
  \<^verbatim>\<open>str.lower()\<close> on the bytes of the query. Only the comparison with the four command
  words is made on the result; they are ASCII and have no letter that a non-ASCII
  character lowers to, so lowering the ASCII capitals decides the comparison.
\<close>

definition lower_char :: "char \<Rightarrow> char" where
  "lower_char c =
     (let n = (of_char c :: nat)
      in if 65 \<le> n \<and> n \<le> 90 then char_of (n + 32) else c)"

definition lower :: "string \<Rightarrow> string" where
  "lower s = map lower_char s"

record shell_state =
  shell_context :: summary_value
  streaming_mode :: bool

definition initial_shell :: shell_state where
  "initial_shell = \<lparr>shell_context = StrSummary sentinel, streaming_mode = False\<rparr>"

text \<open>
  One pass of the \<^verbatim>\<open>while True\<close> loop, on the stripped line read by \<^verbatim>\<open>input\<close>.
  The result is \<^verbatim>\<open>None\<close> after \<^verbatim>\<open>break\<close>, and the next shell state otherwise, with
  the lines printed and the world. The \<^verbatim>\<open>except Exception\<close> handler prints the
  error and a traceback, and the loop goes on.
\<close>

definition chat_step ::
  "'w env \<Rightarrow> shell_state \<Rightarrow> string \<Rightarrow> 'w \<Rightarrow> shell_state option \<times> out_line list \<times> 'w" where
  "chat_step env st query w =
     (if lower query = ''quit'' then (None, [], w)
      else if lower query = ''stream'' then
        (Some (st\<lparr>streaming_mode := \<not> streaming_mode st\<rparr>),
         [OutStreamingMode (\<not> streaming_mode st)], w)
      else if lower query = ''context'' then
        (Some st, [OutCurrentContext (format_summary env (shell_context st))], w)
      else if lower query = ''reset'' then
        (Some (st\<lparr>shell_context := StrSummary sentinel\<rparr>), [OutContextReset], w)
      else if streaming_mode st then
        (case process_query_with_streaming env query w of
           (Inl e, out, w') \<Rightarrow> (Some st, out @ [OutError (str_exn e), OutTraceback], w')
         | (Inr res, out, w') \<Rightarrow> (Some st, out, w'))
      else
        (case process_query env query (shell_context st) w of
           (Inl e, out, w') \<Rightarrow> (Some st, out @ [OutError (str_exn e), OutTraceback], w')
         | (Inr (response, new_context), out, w') \<Rightarrow>
             (Some (st\<lparr>shell_context := new_context\<rparr>), out @ [OutResponse response], w')))"


subsection \<open>Observing the model calls\<close>

text \<open>
  An environment that behaves as the given one and also keeps, next to the world, the
  list of the requests sent to the model so far, in order.
\<close>

definition recording :: "'w env \<Rightarrow> ('w \<times> request list) env" where
  "recording env =
     \<lparr>list_tools = (\<lambda>(w, reqs). case list_tools env w of (r, w') \<Rightarrow> (r, (w', reqs))),
      call_tool = (\<lambda>(w, reqs) n a. case call_tool env w n a of (r, w') \<Rightarrow> (r, (w', reqs))),
      create = (\<lambda>(w, reqs) req. case create env w req of (r, w') \<Rightarrow> (r, (w', reqs @ [req]))),
      block_str = block_str env\<rparr>"

section \<open>The upload endpoint: \<^verbatim>\<open>src/docling_mcp/servers/mcp_server.py\<close>\<close>

text \<open>
  \<^verbatim>\<open>key in json_data\<close> on the parsed body: key membership for a dict, element
  membership for a list, substring test for a string, \<^verbatim>\<open>TypeError\<close> otherwise.
\<close>

fun py_in :: "string \<Rightarrow> json \<Rightarrow> exn + bool" where
  "py_in key (JObj kvs) = Inr (key \<in> set (map fst kvs))"
| "py_in key (JArr xs) = Inr (JStr key \<in> set xs)"
| "py_in key (JStr s) = Inr (sublist key s)"
| "py_in key other = Inl (TypeError ''argument is not iterable'')"

text \<open>\<^verbatim>\<open>json_data[key]\<close> with a string key.\<close>

fun subscript :: "json \<Rightarrow> string \<Rightarrow> exn + json" where
  "subscript (JObj kvs) key =
     (case map_of (rev kvs) key of
        None \<Rightarrow> Inl (KeyError key)
      | Some v \<Rightarrow> Inr v)"
| "subscript (JArr xs) key = Inl (TypeError ''list indices must be integers or slices, not str'')"
| "subscript (JStr s) key = Inl (TypeError ''string indices must be integers'')"
| "subscript other key = Inl (TypeError ''object is not subscriptable'')"

record response =
  status_code :: nat
  body :: "(string \<times> string) list"

text \<open>
  The handler of \<^verbatim>\<open>POST /document\<close>, on the parsed body and the shared document.
  \<^verbatim>\<open>DoclingDocument.model_validate\<close> belongs to the document library and is a
  parameter: it returns the document or raises. An exception leaves the handler; the
  assignment to \<^verbatim>\<open>shared.document\<close> happens only after the validation returned.
\<close>

definition upload_document ::
  "(json \<Rightarrow> exn + 'd) \<Rightarrow> 'd option \<Rightarrow> json \<Rightarrow> (exn + response) \<times> 'd option" where
  "upload_document model_validate document json_data =
     (case py_in ''document'' json_data of
        Inl e \<Rightarrow> (Inl e, document)
      | Inr True \<Rightarrow>
          (case subscript json_data ''document'' of
             Inl e \<Rightarrow> (Inl e, document)
           | Inr v \<Rightarrow>
               (case model_validate v of
                  Inl e \<Rightarrow> (Inl e, document)
                | Inr d \<Rightarrow>
                    (Inr \<lparr>status_code = 200,
                          body = [(''message'', ''Document uploaded successfully.'')]\<rparr>,
                     Some d)))
      | Inr False \<Rightarrow>
          (Inr \<lparr>status_code = 400,
                body = [(''error'', ''No document provided in the request.'')]\<rparr>,
           document))"

section \<open>The generation tools: \<^verbatim>\<open>src/docling_mcp/tools/generation.py\<close>\<close>

datatype group_label = LIST | ORDERED_LIST | OTHER_GROUP string

datatype doc_label = TEXT | CAPTION | FOOTNOTE

text \<open>
  An item of the document, as kept on the stack: a \<^verbatim>\<open>GroupItem\<close> with its label, or
  any other node; both carry the reference the library gave them.
\<close>

datatype item = GroupItem group_label string | NodeItem string

text \<open>
  The document library (\<^verbatim>\<open>DoclingDocument\<close>, \<^verbatim>\<open>DocumentConverter\<close>), a parameter.
  A method that mutates the document returns the new document. \<^verbatim>\<open>convert_table\<close> is the
  conversion of the HTML string: the data of the first table when the status is
  \<^verbatim>\<open>SUCCESS\<close> and there is a table, nothing otherwise.
\<close>

record 'd engine =
  add_title :: "'d \<Rightarrow> string \<Rightarrow> item \<times> 'd"
  add_heading :: "'d \<Rightarrow> string \<Rightarrow> int \<Rightarrow> item \<times> 'd"
  add_text :: "'d \<Rightarrow> doc_label \<Rightarrow> string \<Rightarrow> item \<times> 'd"
  add_group :: "'d \<Rightarrow> group_label \<Rightarrow> item \<times> 'd"
  add_list_item :: "'d \<Rightarrow> string \<Rightarrow> string \<Rightarrow> item \<Rightarrow> 'd"
  convert_table :: "string \<Rightarrow> json option"
  add_table :: "'d \<Rightarrow> json \<Rightarrow> item \<times> 'd"
  append_caption :: "'d \<Rightarrow> item \<Rightarrow> item \<Rightarrow> 'd"
  append_footnote :: "'d \<Rightarrow> item \<Rightarrow> item \<Rightarrow> 'd"
  export_to_dict :: "'d \<Rightarrow> json"
  export_to_markdown :: "'d \<Rightarrow> string"

text \<open>The module state: \<^verbatim>\<open>shared.document\<close> and the list \<^verbatim>\<open>stack_cache\<close>.\<close>

record 'd shared =
  document :: "'d option"
  stack_cache :: "item list"

definition not_initialized :: exn where
  "not_initialized =
     ValueError ''Document has not been initialized. Please load a document first.''"

definition stack_size_zero :: exn where
  "stack_size_zero =
     ValueError ''Stack size is zero for the shared Docling Document. Abort document generation''"

definition no_list_opened :: exn where
  "no_list_opened =
     ValueError ''No list is currently opened. Please open a list before adding list-items!''"

text \<open>
  \<^verbatim>\<open>isinstance(parent, GroupItem)\<close> with a label \<^verbatim>\<open>LIST\<close> or \<^verbatim>\<open>ORDERED_LIST\<close>.
\<close>

fun list_opened :: "item \<Rightarrow> bool" where
  "list_opened (GroupItem l r) = (l = LIST \<or> l = ORDERED_LIST)"
| "list_opened (NodeItem r) = False"

text \<open>\<^verbatim>\<open>stack_cache[-1] = item\<close> on a list that is not empty.\<close>

definition set_last :: "item list \<Rightarrow> item \<Rightarrow> item list" where
  "set_last stack i = butlast stack @ [i]"

type_synonym 'd tool_result = "(exn + json) \<times> 'd shared"

definition export_docling_document_to_markdown ::
  "'d engine \<Rightarrow> 'd shared \<Rightarrow> (exn + string) \<times> 'd shared" where
  "export_docling_document_to_markdown eng st =
     (case document st of
        None \<Rightarrow> (Inl not_initialized, st)
      | Some doc \<Rightarrow> (Inr (export_to_markdown eng doc), st))"

definition add_title_to_docling_document ::
  "'d engine \<Rightarrow> string \<Rightarrow> 'd shared \<Rightarrow> 'd tool_result" where
  "add_title_to_docling_document eng title st =
     (case document st of
        None \<Rightarrow> (Inl not_initialized, st)
      | Some doc \<Rightarrow>
          if length (stack_cache st) = 0 then (Inl stack_size_zero, st)
          else if list_opened (last (stack_cache st)) then
            (Inl (ValueError
               ''A list is currently opened. Please close the list before adding a title!''), st)
          else
            (case add_title eng doc title of
               (i, doc') \<Rightarrow>
                 (Inr (export_to_dict eng doc'),
                  \<lparr>document = Some doc', stack_cache = set_last (stack_cache st) i\<rparr>)))"

definition add_section_heading_to_docling_document ::
  "'d engine \<Rightarrow> string \<Rightarrow> int \<Rightarrow> 'd shared \<Rightarrow> 'd tool_result" where
  "add_section_heading_to_docling_document eng section_heading section_level st =
     (case document st of
        None \<Rightarrow> (Inl not_initialized, st)
      | Some doc \<Rightarrow>
          if length (stack_cache st) = 0 then (Inl stack_size_zero, st)
          else if list_opened (last (stack_cache st)) then
            (Inl (ValueError
               ''A list is currently opened. Please close the list before adding a section-heading!''),
             st)
          else
            (case add_heading eng doc section_heading section_level of
               (i, doc') \<Rightarrow>
                 (Inr (export_to_dict eng doc'),
                  \<lparr>document = Some doc', stack_cache = set_last (stack_cache st) i\<rparr>)))"

definition add_paragraph_to_docling_document ::
  "'d engine \<Rightarrow> string \<Rightarrow> 'd shared \<Rightarrow> 'd tool_result" where
  "add_paragraph_to_docling_document eng paragraph st =
     (case document st of
        None \<Rightarrow> (Inl not_initialized, st)
      | Some doc \<Rightarrow>
          if length (stack_cache st) = 0 then (Inl stack_size_zero, st)
          else if list_opened (last (stack_cache st)) then
            (Inl (ValueError
               ''A list is currently opened. Please close the list before adding a paragraph!''),
             st)
          else
            (case add_text eng doc TEXT paragraph of
               (i, doc') \<Rightarrow>
                 (Inr (export_to_dict eng doc'),
                  \<lparr>document = Some doc', stack_cache = set_last (stack_cache st) i\<rparr>)))"

definition open_list_in_docling_document :: "'d engine \<Rightarrow> 'd shared \<Rightarrow> 'd tool_result" where
  "open_list_in_docling_document eng st =
     (case document st of
        None \<Rightarrow> (Inl not_initialized, st)
      | Some doc \<Rightarrow>
          if length (stack_cache st) = 0 then (Inl stack_size_zero, st)
          else
            (case add_group eng doc LIST of
               (i, doc') \<Rightarrow>
                 (Inr (export_to_dict eng doc'),
                  \<lparr>document = Some doc', stack_cache = stack_cache st @ [i]\<rparr>)))"

definition close_list_in_docling_document :: "'d engine \<Rightarrow> 'd shared \<Rightarrow> 'd tool_result" where
  "close_list_in_docling_document eng st =
     (case document st of
        None \<Rightarrow> (Inl not_initialized, st)
      | Some doc \<Rightarrow>
          if length (stack_cache st) = 0 then (Inl stack_size_zero, st)
          else
            (Inr (export_to_dict eng doc),
             \<lparr>document = Some doc, stack_cache = butlast (stack_cache st)\<rparr>))"

record list_item =
  list_item_text :: string
  list_marker_text :: string

definition add_list_items_to_list_in_docling_document ::
  "'d engine \<Rightarrow> list_item list \<Rightarrow> 'd shared \<Rightarrow> 'd tool_result" where
  "add_list_items_to_list_in_docling_document eng list_items st =
     (case document st of
        None \<Rightarrow> (Inl not_initialized, st)
      | Some doc \<Rightarrow>
          if length (stack_cache st) = 0 then (Inl stack_size_zero, st)
          else
            (case last (stack_cache st) of
               GroupItem l r \<Rightarrow>
                 if l \<noteq> LIST \<and> l \<noteq> ORDERED_LIST then (Inl no_list_opened, st)
                 else
                   (let doc' = fold (\<lambda>li d. add_list_item eng d (list_item_text li)
                                               (list_marker_text li) (GroupItem l r))
                                 list_items doc
                    in (Inr (export_to_dict eng doc'),
                        \<lparr>document = Some doc', stack_cache = stack_cache st\<rparr>))
             | NodeItem r \<Rightarrow> (Inl no_list_opened, st)))"

definition add_table_in_html_format_to_docling_document ::
  "'d engine \<Rightarrow> string \<Rightarrow> string list option \<Rightarrow> string list option \<Rightarrow> 'd shared
     \<Rightarrow> 'd tool_result" where
  "add_table_in_html_format_to_docling_document eng html_table table_captions table_footnotes st =
     (case document st of
        None \<Rightarrow> (Inl not_initialized, st)
      | Some doc \<Rightarrow>
          if length (stack_cache st) = 0 then (Inl stack_size_zero, st)
          else
            (case convert_table eng (''<html><body>'' @ html_table @ ''</body></html>'') of
               Some data \<Rightarrow>
                 (case add_table eng doc data of
                    (table, doc1) \<Rightarrow>
                      (let doc2 = fold (\<lambda>c d. case add_text eng d CAPTION c of
                                                  (caption, d') \<Rightarrow> append_caption eng d' table caption)
                                    (case table_captions of None \<Rightarrow> [] | Some cs \<Rightarrow> cs) doc1;
                           doc3 = fold (\<lambda>f d. case add_text eng d FOOTNOTE f of
                                                  (footnote, d') \<Rightarrow> append_footnote eng d' table footnote)
                                    (case table_footnotes of None \<Rightarrow> [] | Some fs \<Rightarrow> fs) doc2
                       in (Inr (export_to_dict eng doc3),
                           \<lparr>document = Some doc3, stack_cache = stack_cache st\<rparr>)))
             | None \<Rightarrow>
                 (Inl (ValueError
                    ''Could not parse the html string of the table! Please fix the html and try again!''),
                  st)))"

section \<open>Vocabulary of the properties\<close>

text \<open>The ids of the tool-invocation requests of a response, in the order emitted.\<close>

fun request_ids :: "block list \<Rightarrow> string list" where
  "request_ids [] = []"
| "request_ids (ToolUse tid n a # rest) = tid # request_ids rest"
| "request_ids (Text t # rest) = request_ids rest"
| "request_ids (OtherBlock ty # rest) = request_ids rest"

text \<open>The assistant turns that the text segments of a response add, in order.\<close>

fun text_turns :: "block list \<Rightarrow> turn list" where
  "text_turns [] = []"
| "text_turns (Text t # rest) = Turn Assistant (Plain t) # text_turns rest"
| "text_turns (ToolUse tid n a # rest) = text_turns rest"
| "text_turns (OtherBlock ty # rest) = text_turns rest"

text \<open>The log entries of the text segments of a response.\<close>

fun text_log :: "block list \<Rightarrow> log_line list" where
  "text_log [] = []"
| "text_log (Text t # rest) = LogClaude t # text_log rest"
| "text_log (ToolUse tid n a # rest) = text_log rest"
| "text_log (OtherBlock ty # rest) = text_log rest"

text \<open>A line that \<^verbatim>\<open>chat_loop\<close> handles itself instead of running a task.\<close>

definition is_command :: "string \<Rightarrow> bool" where
  "is_command query =
     (lower query = ''quit'' \<or> lower query = ''stream'' \<or> lower query = ''context''
      \<or> lower query = ''reset'')"

fun is_plain_string :: "summary_value \<Rightarrow> bool" where
  "is_plain_string (StrSummary s) = True"
| "is_plain_string NoSummary = False"
| "is_plain_string (BlockSummary b) = False"

text \<open>The requests recorded by a run of \<^verbatim>\<open>process_query\<close> or of the shell.\<close>

definition recorded :: "'a \<times> 'b \<times> 'w \<times> request list \<Rightarrow> request list" where
  "recorded r = snd (snd (snd r))"

section \<open>Example environments\<close>

text \<open>
  A session with one tool, \<^verbatim>\<open>add_title\<close>; calling any other name raises. The world
  is the number of model calls made. The model asks for a tool call in each of its first
  \<open>n\<close> rounds and then answers with text; a request without tools (the summarization)
  gets a one-block summary.
\<close>

definition demo_tools :: "tool list" where
  "demo_tools = [\<lparr>name = ''add_title'', description = ''Add or update title'',
                  inputSchema = JObj []\<rparr>]"

fun demo_block_str :: "block \<Rightarrow> string" where
  "demo_block_str (Text t) = ''TextBlock(text='' @ t @ '')''"
| "demo_block_str (ToolUse tid n a) = ''ToolUseBlock(id='' @ tid @ '')''"
| "demo_block_str (OtherBlock ty) = ''Block(type='' @ ty @ '')''"

definition demo_call_tool :: "nat \<Rightarrow> string \<Rightarrow> json \<Rightarrow> (exn + json) \<times> nat" where
  "demo_call_tool w n a =
     (if n = ''add_title'' then (Inr (JStr ''ok''), w)
      else (Inl (ExternalError ''Unknown tool''), w))"

definition scripted_env :: "nat \<Rightarrow> nat env" where
  "scripted_env n =
     \<lparr>list_tools = (\<lambda>w. (Inr demo_tools, w)),
      call_tool = demo_call_tool,
      create = (\<lambda>w req.
        (if tools req = None then Inr [Text ''summary'']
         else if w < n then Inr [ToolUse ''t1'' ''add_title'' (JObj [])]
         else Inr [Text ''done''], Suc w)),
      block_str = demo_block_str\<rparr>"

text \<open>A model whose first answer mixes text, a good tool call and a bad one.\<close>

definition mixed_response :: "block list" where
  "mixed_response =
     [Text ''working'', ToolUse ''t1'' ''add_title'' (JObj [(''title'', JStr ''Report'')]),
      OtherBlock ''thinking'', ToolUse ''t2'' ''missing'' (JObj [])]"

definition mixed_env :: "nat env" where
  "mixed_env =
     \<lparr>list_tools = (\<lambda>w. (Inr demo_tools, w)),
      call_tool = demo_call_tool,
      create = (\<lambda>w req.
        (if tools req = None then Inr [Text ''summary'']
         else if w = 0 then Inr mixed_response
         else Inr [Text ''done''], Suc w)),
      block_str = demo_block_str\<rparr>"


definition failing_model_env :: "nat env" where
  "failing_model_env =
     (scripted_env 1)\<lparr>create := (\<lambda>w req. (Inl (ExternalError ''overloaded''), Suc w))\<rparr>"

text \<open>
  A validator that accepts JSON objects and rejects everything else, and a document
  library over documents that are lists of lines.
\<close>

definition demo_validate :: "json \<Rightarrow> exn + json" where
  "demo_validate v =
     (case v of JObj kvs \<Rightarrow> Inr (JObj kvs) | _ \<Rightarrow> Inl (ValueError ''validation error''))"

definition demo_engine :: "string list engine" where
  "demo_engine =
     \<lparr>add_title = (\<lambda>d t. (NodeItem ''title'', d @ [t])),
      add_heading = (\<lambda>d t l. (NodeItem ''heading'', d @ [t])),
      add_text = (\<lambda>d l t. (NodeItem ''text'', d @ [t])),
      add_group = (\<lambda>d l. (GroupItem l ''group'', d)),
      add_list_item = (\<lambda>d t m p. d @ [m @ t]),
      convert_table = (\<lambda>h. Some (JStr h)),
      add_table = (\<lambda>d t. (NodeItem ''table'', d @ [''table''])),
      append_caption = (\<lambda>d t c. d),
      append_footnote = (\<lambda>d t f. d),
      export_to_dict = (\<lambda>d. JArr (map JStr d)),
      export_to_markdown = concat\<rparr>"

section \<open>One round of the turn loop\<close>

lemma invoke_id: "invoke env w tid n a = ((r, l), w') \<Longrightarrow> tool_use_id r = tid"
  by (auto simp: invoke_def split: prod.splits sum.splits)

text \<open>
  What the \<^verbatim>\<open>for\<close> loop leaves behind: the text turns of the response after the old
  transcript, the flag set as soon as there is a request, and one envelope per request,
  with the request's id, after the old envelopes.
\<close>

lemma process_content_shape:
  "process_content env bs (w, msgs, log, has, res) = (w', msgs', log', has', res') \<Longrightarrow>
     msgs' = msgs @ text_turns bs \<and> has' = (has \<or> request_ids bs \<noteq> []) \<and>
     map tool_use_id res' = map tool_use_id res @ request_ids bs \<and>
     length res' = length res + length (request_ids bs)"
proof (induction bs arbitrary: w msgs log has res)
  case Nil
  then show ?case by simp
next
  case (Cons b bs)
  show ?case
  proof (cases b)
    case (Text t)
    with Cons.prems Cons.IH[of w "msgs @ [Turn Assistant (Plain t)]" "log @ [LogClaude t]" has res]
    show ?thesis by simp
  next
    case (ToolUse tid n a)
    obtain r l w1 where inv: "invoke env w tid n a = ((r, l), w1)"
      by (metis prod.exhaust)
    with Cons.prems ToolUse
    have "process_content env bs (w1, msgs, log @ [LogCalling n a, l], True, res @ [r])
        = (w', msgs', log', has', res')" by simp
    from Cons.IH[OF this] invoke_id[OF inv] ToolUse show ?thesis by simp
  next
    case (OtherBlock ty)
    with Cons.prems Cons.IH[of w msgs log has res] show ?thesis by simp
  qed
qed

lemma process_content_no_requests:
  "request_ids bs = [] \<Longrightarrow>
     process_content env bs (w, msgs, log, has, res)
       = (w, msgs @ text_turns bs, log @ text_log bs, has, res)"
proof (induction bs arbitrary: msgs log)
  case Nil
  then show ?case by simp
next
  case (Cons b bs)
  then show ?case by (cases b) simp_all
qed

lemma turn_loop_unfold:
  "iteration < max_iterations \<Longrightarrow>
     turn_loop env ts iteration w msgs log =
       (case loop_body env ts w msgs log of
          Raised e w1 \<Rightarrow> (Inl e, w1)
        | Continue w2 msgs2 log2 \<Rightarrow> turn_loop env ts (Suc iteration) w2 msgs2 log2
        | Done w2 msgs2 log2 \<Rightarrow> (Inr (Suc iteration, msgs2, log2), w2))"
  by (subst turn_loop.simps) simp

lemma turn_loop_stop:
  "\<not> iteration < max_iterations \<Longrightarrow>
     turn_loop env ts iteration w msgs log = (Inr (iteration, msgs, log), w)"
  by (subst turn_loop.simps) simp

text \<open>
  C1. In a round of the non-streaming loop whose response holds N >= 1 tool-invocation
  requests, the \<^verbatim>\<open>for\<close> loop produces exactly N envelopes, whose \<^verbatim>\<open>tool_use_id\<close>s are
  the ids of the requests in order; the round leaves the transcript extended by the
  text turns of the response, then one assistant turn holding the raw content block
  list, then one user turn holding all N envelopes; and the loop goes on from there.
\<close>

theorem round_with_tool_calls:
  assumes "create env w (round_request ts msgs) = (Inr response, w1)"
    and "process_content env response (w1, msgs, log, False, []) = (w2, msgs2, log2, has, envs)"
    and "request_ids response \<noteq> []"
    and "iteration < max_iterations"
  shows "length envs = length (request_ids response)
       \<and> map tool_use_id envs = request_ids response
       \<and> loop_body env ts w msgs log =
           Continue w2
             (msgs @ text_turns response
                @ [Turn Assistant (Blocks response), Turn User (Results envs)]) log2
       \<and> turn_loop env ts iteration w msgs log =
           turn_loop env ts (Suc iteration) w2
             (msgs @ text_turns response
                @ [Turn Assistant (Blocks response), Turn User (Results envs)]) log2"
proof -
  from process_content_shape[OF assms(2)] assms(3)
  have shape: "msgs2 = msgs @ text_turns response" "has"
    "map tool_use_id envs = request_ids response"
    "length envs = length (request_ids response)"
    by simp_all
  have body: "loop_body env ts w msgs log =
      Continue w2 (msgs @ text_turns response
                @ [Turn Assistant (Blocks response), Turn User (Results envs)]) log2"
    using assms(1,2) shape by (simp add: loop_body_def)
  show ?thesis using shape body turn_loop_unfold[OF assms(4), of env ts w msgs log] by simp
qed

theorem round_with_tool_calls_witness:
  "request_ids mixed_response = [''t1'', ''t2'']
   \<and> loop_body mixed_env (available_tools demo_tools) 0 [Turn User (Plain ''q'')] [] =
       Continue 1
         [Turn User (Plain ''q''), Turn Assistant (Plain ''working''),
          Turn Assistant (Blocks mixed_response),
          Turn User (Results
            [\<lparr>tool_use_id = ''t1'', content = RawContent (JStr ''ok''), is_error = None\<rparr>,
             \<lparr>tool_use_id = ''t2'', content = TextContent ''Error: Unknown tool'',
               is_error = Some True\<rparr>])]
         [LogClaude ''working'',
          LogCalling ''add_title'' (JObj [(''title'', JStr ''Report'')]),
          LogToolResult (JStr ''ok''), LogCalling ''missing'' (JObj []),
          LogToolError ''Unknown tool'']"
proof -
  have c: "create mixed_env 0 (round_request (available_tools demo_tools) [Turn User (Plain ''q'')])
      = (Inr mixed_response, 1)"
    by (simp add: mixed_env_def round_request_def)
  have p: "process_content mixed_env mixed_response (1, [Turn User (Plain ''q'')], [], False, [])
      = (1, [Turn User (Plain ''q''), Turn Assistant (Plain ''working'')],
         [LogClaude ''working'',
          LogCalling ''add_title'' (JObj [(''title'', JStr ''Report'')]),
          LogToolResult (JStr ''ok''), LogCalling ''missing'' (JObj []),
          LogToolError ''Unknown tool''],
         True,
         [\<lparr>tool_use_id = ''t1'', content = RawContent (JStr ''ok''), is_error = None\<rparr>,
          \<lparr>tool_use_id = ''t2'', content = TextContent ''Error: Unknown tool'',
            is_error = Some True\<rparr>])"
    by (simp add: mixed_response_def mixed_env_def invoke_def demo_call_tool_def)
  have r: "request_ids mixed_response \<noteq> []"
    by (simp add: mixed_response_def)
  have i: "0 < max_iterations"
    by (simp add: max_iterations_def)
  from round_with_tool_calls[OF c p r i] show ?thesis
    by (simp add: mixed_response_def)
qed

section \<open>Recording the model calls\<close>

lemma recording_create:
  "create (recording env) (w, reqs) req =
     (case create env w req of (r, w') \<Rightarrow> (r, (w', reqs @ [req])))"
  by (simp add: recording_def)

lemma recording_call_tool:
  "call_tool (recording env) (w, reqs) n a =
     (case call_tool env w n a of (r, w') \<Rightarrow> (r, (w', reqs)))"
  by (simp add: recording_def)

lemma recording_list_tools:
  "list_tools (recording env) (w, reqs) =
     (case list_tools env w of (r, w') \<Rightarrow> (r, (w', reqs)))"
  by (simp add: recording_def)

lemma recording_block_str: "block_str (recording env) = block_str env"
  by (simp add: recording_def)

lemma initial_messages_recording:
  "initial_messages (recording env) q c = initial_messages env q c"
  by (cases c) (simp_all add: initial_messages_def recording_block_str)

lemma invoke_recording:
  "invoke (recording env) (w, reqs) tid n a =
     (case invoke env w tid n a of (r, w') \<Rightarrow> (r, (w', reqs)))"
  by (simp add: invoke_def recording_call_tool split: prod.splits sum.splits)

lemma process_content_recording:
  "process_content (recording env) bs ((w, reqs), msgs, log, has, res) =
     (case process_content env bs (w, msgs, log, has, res) of
        (w', rest) \<Rightarrow> ((w', reqs), rest))"
proof (induction bs arbitrary: w msgs log has res)
  case Nil
  then show ?case by simp
next
  case (Cons b bs)
  then show ?case
    by (cases b) (simp_all add: invoke_recording split: prod.splits)
qed

lemma loop_body_recording:
  "loop_body (recording env) ts (w, reqs) msgs log =
     (case loop_body env ts w msgs log of
        Raised e w1 \<Rightarrow> Raised e (w1, reqs @ [round_request ts msgs])
      | Continue w2 m l \<Rightarrow> Continue (w2, reqs @ [round_request ts msgs]) m l
      | Done w2 m l \<Rightarrow> Done (w2, reqs @ [round_request ts msgs]) m l)"
  by (simp add: loop_body_def recording_create process_content_recording
      split: prod.splits sum.splits)

lemma loop_body_extends:
  "loop_body env ts w msgs log = Continue w2 m l \<Longrightarrow> prefix msgs m"
  by (auto simp: loop_body_def split: prod.splits sum.splits if_splits
      dest!: process_content_shape)

lemma turn_loop_recording:
  "\<exists>extra. turn_loop (recording env) ts i (w, reqs) msgs log =
       (fst (turn_loop env ts i w msgs log), (snd (turn_loop env ts i w msgs log), reqs @ extra))
     \<and> i + length extra \<le> max i max_iterations
     \<and> (\<forall>it m l. fst (turn_loop env ts i w msgs log) = Inr (it, m, l) \<longrightarrow> it = i + length extra)
     \<and> (\<forall>req \<in> set extra. prefix msgs (messages req) \<and> tools req = Some ts)"
proof (induction env ts i w msgs log arbitrary: reqs rule: turn_loop.induct)
  case (1 env ts iteration w msgs log)
  show ?case
  proof (cases "iteration < max_iterations")
    case False
    then show ?thesis by (simp add: turn_loop_stop)
  next
    case True
    note unf = turn_loop_unfold[OF True]
    show ?thesis
    proof (cases "loop_body env ts w msgs log")
      case (Raised e w1)
      with True show ?thesis
        by (intro exI[of _ "[round_request ts msgs]"])
           (simp add: unf loop_body_recording round_request_def)
    next
      case (Done w2 m l)
      with True show ?thesis
        by (intro exI[of _ "[round_request ts msgs]"])
           (simp add: unf loop_body_recording round_request_def)
    next
      case (Continue w2 m l)
      from "1.IH"[OF True Continue, of "reqs @ [round_request ts msgs]"]
      obtain extra where ex:
        "turn_loop (recording env) ts (Suc iteration) (w2, reqs @ [round_request ts msgs]) m l =
          (fst (turn_loop env ts (Suc iteration) w2 m l),
           (snd (turn_loop env ts (Suc iteration) w2 m l), (reqs @ [round_request ts msgs]) @ extra))"
        "Suc iteration + length extra \<le> max (Suc iteration) max_iterations"
        "\<forall>it m' l'. fst (turn_loop env ts (Suc iteration) w2 m l) = Inr (it, m', l')
            \<longrightarrow> it = Suc iteration + length extra"
        "\<forall>req \<in> set extra. prefix m (messages req) \<and> tools req = Some ts"
        by blast
      have pm: "prefix msgs m" using loop_body_extends[OF Continue] .
      show ?thesis
      proof (intro exI[of _ "round_request ts msgs # extra"] conjI)
        show "turn_loop (recording env) ts iteration (w, reqs) msgs log =
          (fst (turn_loop env ts iteration w msgs log),
           snd (turn_loop env ts iteration w msgs log), reqs @ round_request ts msgs # extra)"
          using ex(1) Continue by (simp add: unf loop_body_recording)
        show "iteration + length (round_request ts msgs # extra) \<le> max iteration max_iterations"
          using ex(2) True by simp
        show "\<forall>it m l. fst (turn_loop env ts iteration w msgs log) = Inr (it, m, l) \<longrightarrow>
          it = iteration + length (round_request ts msgs # extra)"
          using ex(3) Continue by (simp add: unf)
        show "\<forall>req\<in>set (round_request ts msgs # extra).
          prefix msgs (messages req) \<and> tools req = Some ts"
          using ex(4) pm by (auto simp: round_request_def intro: prefix_order.trans)
      qed
    qed
  qed
qed



section \<open>Rounds, invocations and the ceiling\<close>

lemma loop_body_done:
  assumes "create env w (round_request ts msgs) = (Inr response, w1)"
    and "request_ids response = []"
  shows "loop_body env ts w msgs log = Done w1 (msgs @ text_turns response) (log @ text_log response)"
  using assms by (simp add: loop_body_def process_content_no_requests)

lemma turn_loop_done:
  assumes "iteration < max_iterations"
    and "create env w (round_request ts msgs) = (Inr response, w1)"
    and "request_ids response = []"
  shows "turn_loop env ts iteration w msgs log =
    (Inr (Suc iteration, msgs @ text_turns response, log @ text_log response), w1)"
  using turn_loop_unfold[OF assms(1), of env ts w msgs log] loop_body_done[OF assms(2,3)]
  by simp

text \<open>
  C2. A round of the non-streaming loop whose response holds no tool-invocation request
  ends the loop: it returns after that round with the transcript as the round left it
  (the old turns and the text turns of the response), and the one request recorded for
  the round is the last one the loop sends to the model.
\<close>

theorem round_without_tool_calls:
  assumes "iteration < max_iterations"
    and "create env w (round_request ts msgs) = (Inr response, w1)"
    and "request_ids response = []"
  shows "turn_loop env ts iteration w msgs log =
           (Inr (Suc iteration, msgs @ text_turns response, log @ text_log response), w1)
       \<and> turn_loop (recording env) ts iteration (w, reqs) msgs log =
           (Inr (Suc iteration, msgs @ text_turns response, log @ text_log response),
            (w1, reqs @ [round_request ts msgs]))"
proof -
  have "create (recording env) (w, reqs) (round_request ts msgs)
      = (Inr response, (w1, reqs @ [round_request ts msgs]))"
    using assms(2) by (simp add: recording_create)
  from turn_loop_done[OF assms(1) this assms(3)] turn_loop_done[OF assms]
  show ?thesis by simp
qed

theorem round_without_tool_calls_witness:
  "turn_loop (recording (scripted_env 0)) (available_tools demo_tools) 0 (0, [])
       [Turn User (Plain ''q'')] [] =
     (Inr (1, [Turn User (Plain ''q''), Turn Assistant (Plain ''done'')], [LogClaude ''done'']),
      (1, [round_request (available_tools demo_tools) [Turn User (Plain ''q'')]]))"
proof -
  have i: "0 < max_iterations" by (simp add: max_iterations_def)
  have c: "create (scripted_env 0) 0
             (round_request (available_tools demo_tools) [Turn User (Plain ''q'')])
           = (Inr [Text ''done''], 1)"
    by (simp add: scripted_env_def round_request_def)
  have r: "request_ids [Text ''done''] = []" by simp
  from round_without_tool_calls[OF i c r, of "[]" "[]"] show ?thesis by simp
qed

lemma loop_body_raised:
  "loop_body env ts w msgs log = Raised e w' \<Longrightarrow>
     create env w (round_request ts msgs) = (Inl e, w')"
  by (auto simp: loop_body_def split: prod.splits sum.splits if_splits)

text \<open>
  C4, as the code has it. When the session call returns, the envelope carries the raw
  result content and no \<^verbatim>\<open>is_error\<close> key. When the session call raises, the
  exception is caught and the envelope has \<^verbatim>\<open>is_error = True\<close> and the content
  \<^verbatim>\<open>"Error: "\<close> followed by the exception's string. The invoker returns an envelope
  in both cases, and a round raises only what its model call raised.
\<close>

theorem invoke_envelope:
  "(call_tool env w n a = (Inr result, w') \<longrightarrow>
      invoke env w tid n a =
        ((\<lparr>tool_use_id = tid, content = RawContent result, is_error = None\<rparr>,
          LogToolResult result), w'))
   \<and> (call_tool env w n a = (Inl e, w') \<longrightarrow>
      invoke env w tid n a =
        ((\<lparr>tool_use_id = tid, content = TextContent (''Error: '' @ str_exn e),
           is_error = Some True\<rparr>,
          LogToolError (str_exn e)), w'))
   \<and> (loop_body env ts w msgs log = Raised e w' \<longrightarrow>
      create env w (round_request ts msgs) = (Inl e, w'))"
  using loop_body_raised[of env ts w msgs log e w'] by (simp add: invoke_def)

theorem invoke_envelope_witness:
  "invoke mixed_env 1 ''t1'' ''add_title'' (JObj []) =
     ((\<lparr>tool_use_id = ''t1'', content = RawContent (JStr ''ok''), is_error = None\<rparr>,
       LogToolResult (JStr ''ok'')), 1)
   \<and> invoke mixed_env 1 ''t2'' ''missing'' (JObj []) =
     ((\<lparr>tool_use_id = ''t2'', content = TextContent ''Error: Unknown tool'',
        is_error = Some True\<rparr>,
       LogToolError ''Unknown tool''), 1)
   \<and> create failing_model_env 0
         (round_request (available_tools demo_tools) [Turn User (Plain ''q'')])
       = (Inl (ExternalError ''overloaded''), 1)"
proof -
  have ok: "call_tool mixed_env 1 ''add_title'' (JObj []) = (Inr (JStr ''ok''), 1)"
    by (simp add: mixed_env_def demo_call_tool_def)
  have bad: "call_tool mixed_env 1 ''missing'' (JObj []) = (Inl (ExternalError ''Unknown tool''), 1)"
    by (simp add: mixed_env_def demo_call_tool_def)
  have raised: "loop_body failing_model_env (available_tools demo_tools) 0
      [Turn User (Plain ''q'')] [] = Raised (ExternalError ''overloaded'') 1"
    by (simp add: loop_body_def failing_model_env_def scripted_env_def)
  from invoke_envelope[where env=mixed_env and w=1 and n="''add_title''" and a="JObj []"
      and result="JStr ''ok''" and w'=1 and tid="''t1''"] ok
  have a: "invoke mixed_env 1 ''t1'' ''add_title'' (JObj []) =
     ((\<lparr>tool_use_id = ''t1'', content = RawContent (JStr ''ok''), is_error = None\<rparr>,
       LogToolResult (JStr ''ok'')), 1)" by simp
  from invoke_envelope[where env=mixed_env and w=1 and n="''missing''" and a="JObj []"
      and e="ExternalError ''Unknown tool''" and w'=1 and tid="''t2''"] bad
  have b: "invoke mixed_env 1 ''t2'' ''missing'' (JObj []) =
     ((\<lparr>tool_use_id = ''t2'', content = TextContent ''Error: Unknown tool'',
        is_error = Some True\<rparr>,
       LogToolError ''Unknown tool''), 1)" by simp
  from invoke_envelope[where env=failing_model_env and w=0 and e="ExternalError ''overloaded''"
      and w'=1 and ts="available_tools demo_tools" and msgs="[Turn User (Plain ''q'')]"
      and log="[]"] raised
  have c: "create failing_model_env 0
         (round_request (available_tools demo_tools) [Turn User (Plain ''q'')])
       = (Inl (ExternalError ''overloaded''), 1)" by simp
  from a b c show ?thesis by simp
qed

text \<open>
  C4 as stated fails: the content of the error envelope is not the exception's string
  (it has the prefix), and the success envelope has no \<^verbatim>\<open>is_error = False\<close>.
\<close>

theorem invoke_error_content_counterexample:
  "content (fst (fst (invoke mixed_env 1 ''t2'' ''missing'' (JObj []))))
     \<noteq> TextContent (str_exn (ExternalError ''Unknown tool''))
   \<and> is_error (fst (fst (invoke mixed_env 1 ''t1'' ''add_title'' (JObj [])))) \<noteq> Some False"
  by (simp add: invoke_def mixed_env_def demo_call_tool_def)

lemma summarize_recording:
  "summarize (recording env) (w, reqs) m =
     (case summarize env w m of (r, w') \<Rightarrow> (r, (w', reqs @ [summary_request m])))"
  by (simp add: summarize_def recording_create split: prod.splits sum.splits list.splits)

lemma process_query_after_loop:
  assumes "list_tools env w0 = (Inr tls, w1)"
    and "turn_loop env (available_tools tls) 0 w1 (initial_messages env q c) []
          = (Inr (it, m, l), w2)"
  shows "process_query env q c w0 =
     (case summarize env w2 m of
        (Inl e, w3) \<Rightarrow> (Inl e, [OutCompressing], w3)
      | (Inr s, w3) \<Rightarrow>
          (Inr (if it \<ge> max_iterations then l @ [LogCeiling max_iterations] else l, s),
           [OutCompressing], w3))"
  using assms by (simp add: process_query_def)

lemma turn_loop_iteration_bound:
  assumes "turn_loop env ts i w msgs log = (Inr (it, m, l), w')"
  shows "it \<le> max i max_iterations"
proof -
  obtain extra :: "request list" where e: "i + length extra \<le> max i max_iterations"
    "\<forall>it m l. fst (turn_loop env ts i w msgs log) = Inr (it, m, l) \<longrightarrow> it = i + length extra"
    using turn_loop_recording[of env ts i w "[]" msgs log] by blast
  from e(2) assms have "it = i + length extra" by simp
  with e(1) show ?thesis by simp
qed

lemma turn_loop_last_round:
  assumes "Suc i = max_iterations"
  shows "turn_loop env ts i w msgs log =
     (case loop_body env ts w msgs log of
        Raised e w1 \<Rightarrow> (Inl e, w1)
      | Continue w2 m l \<Rightarrow> (Inr (max_iterations, m, l), w2)
      | Done w2 m l \<Rightarrow> (Inr (max_iterations, m, l), w2))"
proof -
  have "i < max_iterations" using assms by simp
  from turn_loop_unfold[OF this, of env ts w msgs log] assms
  show ?thesis by (simp add: turn_loop_stop split: round_result.splits)
qed

text \<open>
  C3. A task sends at most 20 round requests to the model, and the iteration counter
  the loop returns is their number. When the loop returns, whatever the counter, the
  next and last request of the task is the summarization request: no tools, 200 output
  tokens, and as messages the accumulated transcript followed by the user turn with the
  summary prompt. A 20th round that still asks for tool calls ends the loop with its
  tool results in the transcript.
\<close>

theorem iteration_ceiling:
  assumes "list_tools env w0 = (Inr tls, w)"
    and "turn_loop (recording env) (available_tools tls) 0 (w, []) (initial_messages env q c) []
          = (r, (w', reqs))"
  shows "length reqs \<le> 20
       \<and> (\<forall>it m l. r = Inr (it, m, l) \<longrightarrow>
            it = length reqs
            \<and> recorded (process_query (recording env) q c (w0, [])) =
                reqs @ [\<lparr>model = ''claude-3-5-sonnet-20241022'', max_tokens = 200,
                   messages = m @ [Turn User (Plain
                     ''Please provide a brief summary of the conversation so far. Make sure to prioritize the user's goals, actions taken, and any important data like document keys that will be important for the continuation of work. List the most recent actions first'')],
                   tools = None\<rparr>])
       \<and> (\<forall>v ms lg v2 m2 l2. loop_body env ts v ms lg = Continue v2 m2 l2 \<longrightarrow>
            turn_loop env ts 19 v ms lg = (Inr (20, m2, l2), v2))"
proof (intro conjI allI impI)
  from turn_loop_recording[of env "available_tools tls" 0 w "[]" "initial_messages env q c" "[]"]
    assms(2)
  obtain extra where ex: "reqs = extra" "length extra \<le> max_iterations"
    "\<forall>it m l. r = Inr (it, m, l) \<longrightarrow> it = length extra"
    by auto
  show "length reqs \<le> 20" using ex by (simp add: max_iterations_def)
  fix it m l assume r: "r = Inr (it, m, l)"
  show "it = length reqs" using ex r by simp
  have lt: "list_tools (recording env) (w0, []) = (Inr tls, (w, []))"
    using assms(1) by (simp add: recording_list_tools)
  have loop: "turn_loop (recording env) (available_tools tls) 0 (w, [])
      (initial_messages (recording env) q c) [] = (Inr (it, m, l), (w', reqs))"
    using assms(2) r by (simp add: initial_messages_recording)
  have req: "summary_request m = \<lparr>model = ''claude-3-5-sonnet-20241022'', max_tokens = 200,
                   messages = m @ [Turn User (Plain
                     ''Please provide a brief summary of the conversation so far. Make sure to prioritize the user's goals, actions taken, and any important data like document keys that will be important for the continuation of work. List the most recent actions first'')],
                   tools = None\<rparr>"
    by (simp add: summary_request_def model_id_def summary_prompt_def)
  have "recorded (process_query (recording env) q c (w0, [])) = reqs @ [summary_request m]"
    by (simp add: process_query_after_loop[OF lt loop] summarize_recording recorded_def
        split: prod.splits sum.splits)
  then show "recorded (process_query (recording env) q c (w0, [])) =
                reqs @ [\<lparr>model = ''claude-3-5-sonnet-20241022'', max_tokens = 200,
                   messages = m @ [Turn User (Plain
                     ''Please provide a brief summary of the conversation so far. Make sure to prioritize the user's goals, actions taken, and any important data like document keys that will be important for the continuation of work. List the most recent actions first'')],
                   tools = None\<rparr>]"
    unfolding req .
next
  fix v ms lg v2 m2 l2 assume "loop_body env ts v ms lg = Continue v2 m2 l2"
  then show "turn_loop env ts 19 v ms lg = (Inr (20, m2, l2), v2)"
    using turn_loop_last_round[of 19 env ts v ms lg] by (simp add: max_iterations_def)
qed

theorem iteration_ceiling_witness:
  "length (recorded (process_query (recording (scripted_env 25)) ''q'' NoSummary (0, []))) = 21
   \<and> last (recorded (process_query (recording (scripted_env 25)) ''q'' NoSummary (0, []))) =
       \<lparr>model = ''claude-3-5-sonnet-20241022'', max_tokens = 200,
                   messages = (Turn User (Plain ''q'') #
          concat (replicate 20
            [Turn Assistant (Blocks [ToolUse ''t1'' ''add_title'' (JObj [])]),
             Turn User (Results [\<lparr>tool_use_id = ''t1'', content = RawContent (JStr ''ok''),
                                  is_error = None\<rparr>])])) @ [Turn User (Plain
                     ''Please provide a brief summary of the conversation so far. Make sure to prioritize the user's goals, actions taken, and any important data like document keys that will be important for the continuation of work. List the most recent actions first'')],
                   tools = None\<rparr>
   \<and> turn_loop (scripted_env 25) (available_tools demo_tools) 19 19 [Turn User (Plain ''q'')] [] =
       (Inr (20, [Turn User (Plain ''q''), Turn Assistant (Blocks [ToolUse ''t1'' ''add_title'' (JObj [])]),
                 Turn User (Results [\<lparr>tool_use_id = ''t1'', content = RawContent (JStr ''ok''),
                                      is_error = None\<rparr>])],
             [LogCalling ''add_title'' (JObj []), LogToolResult (JStr ''ok'')]), 20)"
proof -
  let ?T = "turn_loop (recording (scripted_env 25)) (available_tools demo_tools) 0 (0, [])
     (initial_messages (scripted_env 25) ''q'' NoSummary) []"
  let ?m = "fst (snd (projr (fst ?T)))"
  let ?R = "recorded (process_query (recording (scripted_env 25)) ''q'' NoSummary (0, []))"
  have lt: "list_tools (scripted_env 25) 0 = (Inr demo_tools, 0)"
    by (simp add: scripted_env_def)
  have T: "?T = (fst ?T, (fst (snd ?T), snd (snd ?T)))" by simp
  have ok: "\<not> isl (fst ?T)" by code_simp
  have it: "fst (projr (fst ?T)) = 20" by code_simp
  have m: "?m = (Turn User (Plain ''q'') #
          concat (replicate 20
            [Turn Assistant (Blocks [ToolUse ''t1'' ''add_title'' (JObj [])]),
             Turn User (Results [\<lparr>tool_use_id = ''t1'', content = RawContent (JStr ''ok''),
                                  is_error = None\<rparr>])]))"
    by code_simp
  have r: "fst ?T = Inr (20, ?m, snd (snd (projr (fst ?T))))"
    using ok it by (metis prod.collapse sum.collapse(2))
  have body: "loop_body (scripted_env 25) (available_tools demo_tools) 19 [Turn User (Plain ''q'')] []
     = Continue 20 [Turn User (Plain ''q''), Turn Assistant (Blocks [ToolUse ''t1'' ''add_title'' (JObj [])]),
                 Turn User (Results [\<lparr>tool_use_id = ''t1'', content = RawContent (JStr ''ok''),
                                      is_error = None\<rparr>])]
             [LogCalling ''add_title'' (JObj []), LogToolResult (JStr ''ok'')]"
    by (simp add: loop_body_def scripted_env_def round_request_def invoke_def demo_call_tool_def)
  note th = iteration_ceiling[OF lt T, of "available_tools demo_tools"]
  from th have a: "\<forall>it m l. fst ?T = Inr (it, m, l) \<longrightarrow>
      it = length (snd (snd ?T))
      \<and> ?R = snd (snd ?T) @ [\<lparr>model = ''claude-3-5-sonnet-20241022'', max_tokens = 200,
                   messages = m @ [Turn User (Plain
                     ''Please provide a brief summary of the conversation so far. Make sure to prioritize the user's goals, actions taken, and any important data like document keys that will be important for the continuation of work. List the most recent actions first'')],
                   tools = None\<rparr>]"
    by blast
  from a r have "20 = length (snd (snd ?T))"
    "?R = snd (snd ?T) @ [\<lparr>model = ''claude-3-5-sonnet-20241022'', max_tokens = 200,
                   messages = ?m @ [Turn User (Plain
                     ''Please provide a brief summary of the conversation so far. Make sure to prioritize the user's goals, actions taken, and any important data like document keys that will be important for the continuation of work. List the most recent actions first'')],
                   tools = None\<rparr>]"
    by blast+
  then have n: "length ?R = 21" and l: "last ?R = \<lparr>model = ''claude-3-5-sonnet-20241022'', max_tokens = 200,
                   messages = ?m @ [Turn User (Plain
                     ''Please provide a brief summary of the conversation so far. Make sure to prioritize the user's goals, actions taken, and any important data like document keys that will be important for the continuation of work. List the most recent actions first'')],
                   tools = None\<rparr>"
    by simp_all
  from l have l': "last ?R = \<lparr>model = ''claude-3-5-sonnet-20241022'', max_tokens = 200,
                   messages = (Turn User (Plain ''q'') #
          concat (replicate 20
            [Turn Assistant (Blocks [ToolUse ''t1'' ''add_title'' (JObj [])]),
             Turn User (Results [\<lparr>tool_use_id = ''t1'', content = RawContent (JStr ''ok''),
                                  is_error = None\<rparr>])])) @ [Turn User (Plain
                     ''Please provide a brief summary of the conversation so far. Make sure to prioritize the user's goals, actions taken, and any important data like document keys that will be important for the continuation of work. List the most recent actions first'')],
                   tools = None\<rparr>"
    unfolding m .
  from th have "\<forall>v ms lg v2 m2 l2.
      loop_body (scripted_env 25) (available_tools demo_tools) v ms lg = Continue v2 m2 l2 \<longrightarrow>
      turn_loop (scripted_env 25) (available_tools demo_tools) 19 v ms lg = (Inr (20, m2, l2), v2)"
    by blast
  with body n l' show ?thesis by blast
qed

section \<open>The carryover summary and the shell\<close>

lemma loop_body_done_extends:
  "loop_body env ts w msgs log = Done w2 m l \<Longrightarrow> prefix msgs m"
  by (auto simp: loop_body_def split: prod.splits sum.splits if_splits
      dest!: process_content_shape)

lemma turn_loop_extends:
  "turn_loop env ts i w msgs log = (Inr (it, m, l), w') \<Longrightarrow> prefix msgs m"
proof (induction env ts i w msgs log rule: turn_loop.induct)
  case (1 env ts iteration w msgs log)
  show ?case
  proof (cases "iteration < max_iterations")
    case False
    with "1.prems" show ?thesis by (simp add: turn_loop_stop)
  next
    case True
    show ?thesis
    proof (cases "loop_body env ts w msgs log")
      case (Raised e w1)
      with True "1.prems" show ?thesis by (simp add: turn_loop_unfold)
    next
      case (Continue w2 m2 l2)
      with True "1.prems" have "turn_loop env ts (Suc iteration) w2 m2 l2 = (Inr (it, m, l), w')"
        by (simp add: turn_loop_unfold)
      from "1.IH"[OF True Continue this] loop_body_extends[OF Continue]
      show ?thesis by (rule prefix_order.trans[rotated])
    next
      case (Done w2 m2 l2)
      with True "1.prems" loop_body_done_extends[OF Done] show ?thesis
        by (simp add: turn_loop_unfold)
    qed
  qed
qed

lemma process_query_requests_prefix:
  "\<forall>req \<in> set (recorded (process_query (recording env) q c (w, []))).
     prefix (initial_messages env q c) (messages req)"
proof (cases "list_tools env w")
  case (Pair lr w1)
  show ?thesis
  proof (cases lr)
    case (Inl e)
    with Pair show ?thesis
      by (simp add: process_query_def recording_list_tools recorded_def)
  next
    case (Inr tls)
    let ?init = "initial_messages env q c"
    obtain extra :: "request list" where ex:
      "turn_loop (recording env) (available_tools tls) 0 (w1, []) ?init [] =
         (fst (turn_loop env (available_tools tls) 0 w1 ?init []),
          (snd (turn_loop env (available_tools tls) 0 w1 ?init []), [] @ extra))"
      "\<forall>req \<in> set extra. prefix ?init (messages req) \<and> tools req = Some (available_tools tls)"
      using turn_loop_recording[of env "available_tools tls" 0 w1 "[]" ?init "[]"] by blast
    show ?thesis
    proof (cases "fst (turn_loop env (available_tools tls) 0 w1 ?init [])")
      case (Inl e)
      with Pair Inr ex show ?thesis
        by (simp add: process_query_def recording_list_tools recorded_def
            initial_messages_recording)
    next
      case r: (Inr res)
      obtain it m l where res: "res = (it, m, l)" by (cases res) auto
      have "turn_loop env (available_tools tls) 0 w1 ?init []
          = (Inr (it, m, l), snd (turn_loop env (available_tools tls) 0 w1 ?init []))"
        using r res by (metis prod.collapse)
      from turn_loop_extends[OF this] have pm: "prefix ?init m" .
      then have "prefix ?init (messages (summary_request m))"
        by (simp add: summary_request_def)
      with Pair Inr ex r res show ?thesis
        by (simp add: process_query_def recording_list_tools recorded_def
            initial_messages_recording summarize_recording split: prod.splits sum.splits)
    qed
  qed
qed

lemma chat_step_task:
  "\<not> is_command q \<Longrightarrow> \<not> streaming_mode st \<Longrightarrow>
     chat_step env st q w =
       (case process_query env q (shell_context st) w of
           (Inl e, out, w') \<Rightarrow> (Some st, out @ [OutError (str_exn e), OutTraceback], w')
         | (Inr (response, new_context), out, w') \<Rightarrow>
             (Some (st\<lparr>shell_context := new_context\<rparr>), out @ [OutResponse response], w'))"
  by (simp add: chat_step_def is_command_def)

lemma chat_step_streaming_task:
  "\<not> is_command q \<Longrightarrow> streaming_mode st \<Longrightarrow>
     chat_step env st q w =
       (case process_query_with_streaming env q w of
           (Inl e, out, w') \<Rightarrow> (Some st, out @ [OutError (str_exn e), OutTraceback], w')
         | (Inr res, out, w') \<Rightarrow> (Some st, out, w'))"
  by (simp add: chat_step_def is_command_def)

text \<open>
  C5, as the code has it. In non-streaming mode, when the shell's stored summary is a
  non-empty string, the transcript of the next task starts with an assistant turn whose
  content is \<^verbatim>\<open>"Previous conversation context: "\<close> followed by that string, character
  for character, and then the user turn with the query; every request the task sends to
  the model starts with these two turns.
\<close>

theorem carryover_context_turn:
  assumes "s \<noteq> []" and "\<not> is_command q" and "shell_context st = StrSummary s"
    and "\<not> streaming_mode st"
  shows "initial_messages env q (shell_context st) =
           [Turn Assistant (Plain (context_prefix @ s)), Turn User (Plain q)]
       \<and> (\<forall>req \<in> set (recorded (chat_step (recording env) st q (w, []))).
            prefix [Turn Assistant (Plain (context_prefix @ s)), Turn User (Plain q)]
              (messages req))"
proof -
  have init: "initial_messages env q (StrSummary s) =
           [Turn Assistant (Plain (context_prefix @ s)), Turn User (Plain q)]"
    using assms(1) by (simp add: initial_messages_def)
  have "recorded (chat_step (recording env) st q (w, []))
      = recorded (process_query (recording env) q (StrSummary s) (w, []))"
    using assms(3) by (simp add: chat_step_task[OF assms(2,4)] recorded_def
        split: prod.splits sum.splits)
  with process_query_requests_prefix[of env q "StrSummary s" w] init assms(3)
  show ?thesis by simp
qed


theorem carryover_context_turn_witness:
  "initial_messages (scripted_env 0) ''hi'' (StrSummary sentinel) =
     [Turn Assistant (Plain ''Previous conversation context: None. Start of a new conversation.''),
      Turn User (Plain ''hi'')]
   \<and> map messages (recorded (chat_step (recording (scripted_env 0)) initial_shell ''hi'' (0, []))) =
     [[Turn Assistant (Plain ''Previous conversation context: None. Start of a new conversation.''),
       Turn User (Plain ''hi'')],
      [Turn Assistant (Plain ''Previous conversation context: None. Start of a new conversation.''),
       Turn User (Plain ''hi''), Turn Assistant (Plain ''done''),
       Turn User (Plain summary_prompt)]]
   \<and> list_all
        (\<lambda>req. prefix [Turn Assistant (Plain ''Previous conversation context: None. Start of a new conversation.''),
                Turn User (Plain ''hi'')] (messages req))
        (recorded (chat_step (recording (scripted_env 0)) initial_shell ''hi'' (0, [])))"
proof -
  have s: "sentinel \<noteq> []" by (simp add: sentinel_def)
  have q: "\<not> is_command ''hi''" by code_simp
  have c: "shell_context initial_shell = StrSummary sentinel" by (simp add: initial_shell_def)
  have m: "\<not> streaming_mode initial_shell" by (simp add: initial_shell_def)
  have run: "map messages (recorded (chat_step (recording (scripted_env 0)) initial_shell ''hi'' (0, []))) =
     [[Turn Assistant (Plain ''Previous conversation context: None. Start of a new conversation.''),
       Turn User (Plain ''hi'')],
      [Turn Assistant (Plain ''Previous conversation context: None. Start of a new conversation.''),
       Turn User (Plain ''hi''), Turn Assistant (Plain ''done''),
       Turn User (Plain summary_prompt)]]"
    by code_simp
  from carryover_context_turn[OF s q c m, of "scripted_env 0" 0] run
  show ?thesis by (simp add: context_prefix_def sentinel_def initial_shell_def list_all_iff)
qed

text \<open>
  C5 as stated fails: what the task hands back as the new summary is the first content
  block of the summarization response, not a string, and the content of the context
  turn is not the summary alone.
\<close>

theorem summary_not_verbatim_counterexample:
  "(case process_query (scripted_env 0) ''hi'' (StrSummary ''abc'') 0 of
      (Inr (log, new_summary), out, w) \<Rightarrow>
        new_summary = BlockSummary (Text ''summary'') \<and> \<not> is_plain_string new_summary
    | (Inl e, out, w) \<Rightarrow> False)
   \<and> initial_messages (scripted_env 0) ''hi'' (StrSummary ''abc'') =
       [Turn Assistant (Plain ''Previous conversation context: abc''), Turn User (Plain ''hi'')]
   \<and> Plain ''Previous conversation context: abc'' \<noteq> Plain ''abc''"
  by code_simp

text \<open>
  C10. When the loop returns and the summarization succeeds, the execution log ends
  with the ceiling notice exactly when the iteration counter is 20. A 20th round without
  tool-invocation requests leaves the loop by \<^verbatim>\<open>break\<close> with the counter at 20, so the
  notice is logged for a task that completed by itself in round 20.
\<close>

theorem ceiling_notice_on_natural_completion:
  assumes "list_tools env w0 = (Inr tls, w1)"
    and "turn_loop env (available_tools tls) 0 w1 (initial_messages env q c) []
          = (Inr (it, m, l), w2)"
    and "summarize env w2 m = (Inr s, w3)"
  shows "process_query env q c w0 =
           (Inr (if it = 20 then l @ [LogCeiling 20] else l, s), [OutCompressing], w3)
       \<and> (\<forall>v ms lg v2 m2 l2. loop_body env ts v ms lg = Done v2 m2 l2 \<longrightarrow>
            turn_loop env ts 19 v ms lg = (Inr (20, m2, l2), v2))"
proof (intro conjI allI impI)
  from turn_loop_iteration_bound[OF assms(2)] have "it \<le> 20"
    by (simp add: max_iterations_def)
  then show "process_query env q c w0 =
           (Inr (if it = 20 then l @ [LogCeiling 20] else l, s), [OutCompressing], w3)"
    using assms(3) by (simp add: process_query_after_loop[OF assms(1,2)] max_iterations_def)
next
  fix v ms lg v2 m2 l2 assume "loop_body env ts v ms lg = Done v2 m2 l2"
  then show "turn_loop env ts 19 v ms lg = (Inr (20, m2, l2), v2)"
    using turn_loop_last_round[of 19 env ts v ms lg] by (simp add: max_iterations_def)
qed

theorem ceiling_notice_on_natural_completion_witness:
  "(case process_query (scripted_env 19) ''q'' NoSummary 0 of
      (Inr (log, s), out, w) \<Rightarrow> drop 38 log = [LogClaude ''done'', LogCeiling 20] \<and> w = 21
    | (Inl e, out, w) \<Rightarrow> False)
   \<and> turn_loop (scripted_env 19) (available_tools demo_tools) 19 19 [Turn User (Plain ''q'')] [] =
       (Inr (20, [Turn User (Plain ''q''), Turn Assistant (Plain ''done'')], [LogClaude ''done'']),
        20)"
proof -
  let ?T = "turn_loop (scripted_env 19) (available_tools demo_tools) 0 0
     (initial_messages (scripted_env 19) ''q'' NoSummary) []"
  let ?m = "fst (snd (projr (fst ?T)))"
  let ?l = "snd (snd (projr (fst ?T)))"
  have lt: "list_tools (scripted_env 19) 0 = (Inr demo_tools, 0)"
    by (simp add: scripted_env_def)
  have ok: "\<not> isl (fst ?T)" by code_simp
  have it: "fst (projr (fst ?T)) = 20" by code_simp
  have w: "snd ?T = 20" by code_simp
  have len: "length ?l = 39" by code_simp
  have tail: "drop 38 ?l = [LogClaude ''done'']" by code_simp
  have "fst ?T = Inr (20, ?m, ?l)"
    using ok it by (metis prod.collapse sum.collapse(2))
  with w have T: "?T = (Inr (20, ?m, ?l), 20)"
    by (metis prod.collapse)
  have sm: "summarize (scripted_env 19) 20 ?m = (Inr (BlockSummary (Text ''summary'')), 21)"
    by (simp add: summarize_def scripted_env_def summary_request_def)
  have body: "loop_body (scripted_env 19) (available_tools demo_tools) 19 [Turn User (Plain ''q'')] []
      = Done 20 [Turn User (Plain ''q''), Turn Assistant (Plain ''done'')] [LogClaude ''done'']"
    by (simp add: loop_body_def scripted_env_def round_request_def)
  note th = ceiling_notice_on_natural_completion[OF lt T sm, of "available_tools demo_tools"]
  from th have "process_query (scripted_env 19) ''q'' NoSummary 0 =
      (Inr (?l @ [LogCeiling 20], BlockSummary (Text ''summary'')), [OutCompressing], 21)"
    by simp
  moreover from th body
  have "turn_loop (scripted_env 19) (available_tools demo_tools) 19 19 [Turn User (Plain ''q'')] [] =
       (Inr (20, [Turn User (Plain ''q''), Turn Assistant (Plain ''done'')], [LogClaude ''done'']),
        20)" by blast
  ultimately show ?thesis using len tail by simp
qed

section \<open>Failures of the session and of the model\<close>






section \<open>Streaming mode\<close>

lemma stream_content_recording:
  "stream_content (recording env) bs ((w, reqs), pending, has, out) =
     (case stream_content env bs (w, pending, has, out) of
        (w', rest) \<Rightarrow> ((w', reqs), rest))"
proof (induction bs arbitrary: w pending has out)
  case Nil
  then show ?case by simp
next
  case (Cons b bs)
  then show ?case
    by (cases b) (simp_all add: recording_call_tool split: prod.splits sum.splits)
qed

lemma stream_loop_requests:
  "stream_loop (recording env) ts i (w, reqs) msgs out = (r, out', (w', reqs')) \<Longrightarrow>
     \<exists>extra. reqs' = reqs @ extra \<and> (\<forall>req \<in> set extra. tools req = Some ts)"
proof (induction "max_iterations - i" arbitrary: i w reqs msgs out)
  case 0
  then have "\<not> i < max_iterations" by simp
  with "0.prems" show ?case by (subst (asm) stream_loop.simps) simp
next
  case (Suc n)
  then have lt: "i < max_iterations" by simp
  let ?rq = "round_request ts msgs"
  obtain x w1 where cr: "create env w ?rq = (x, w1)" by (cases "create env w ?rq")
  show ?case
  proof (cases x)
    case (Inl e)
    with Suc.prems lt cr have "reqs' = reqs @ [?rq]"
      by (subst (asm) stream_loop.simps) (simp add: recording_create)
    then show ?thesis by (simp add: round_request_def)
  next
    case (Inr response)
    obtain w2 pending has out2 where sc:
      "stream_content env response (w1, [], False, out @ [OutIteration (Suc i)])
         = (w2, pending, has, out2)"
      by (metis prod.exhaust)
    show ?thesis
    proof (cases has)
      case False
      with Suc.prems lt cr Inr sc have "reqs' = reqs @ [?rq]"
        by (subst (asm) stream_loop.simps)
           (simp add: recording_create stream_content_recording)
      then show ?thesis by (simp add: round_request_def)
    next
      case True
      with Suc.prems lt cr Inr sc
      have "stream_loop (recording env) ts (Suc i) (w2, reqs @ [?rq])
              (msgs @ stream_turns response pending) out2 = (r, out', (w', reqs'))"
        by (subst (asm) stream_loop.simps)
           (simp add: recording_create stream_content_recording)
      moreover have "n = max_iterations - Suc i" using Suc.hyps(2) by simp
      ultimately obtain extra where
        "reqs' = (reqs @ [?rq]) @ extra" "\<forall>req \<in> set extra. tools req = Some ts"
        using Suc.hyps(1) by blast
      then show ?thesis
        by (intro exI[of _ "?rq # extra"]) (simp add: round_request_def)
    qed
  qed
qed

lemma streaming_requests:
  "\<forall>req \<in> set (recorded (process_query_with_streaming (recording env) q (w, []))).
     tools req \<noteq> None"
proof (cases "list_tools env w")
  case (Pair lr w1)
  show ?thesis
  proof (cases lr)
    case (Inl e)
    with Pair show ?thesis
      by (simp add: process_query_with_streaming_def recording_list_tools recorded_def)
  next
    case (Inr tls)
    obtain r out' w' reqs' where sl:
      "stream_loop (recording env) (available_tools tls) 0 (w1, []) [Turn User (Plain q)]
         [OutProcessing q] = (r, out', (w', reqs'))"
      by (metis prod.exhaust)
    from stream_loop_requests[OF sl]
    have "\<forall>req \<in> set reqs'. tools req \<noteq> None" by auto
    with Pair Inr sl show ?thesis
      by (simp add: process_query_with_streaming_def recording_list_tools recorded_def
          split: sum.splits)
  qed
qed

lemma streaming_returns_constant:
  "process_query_with_streaming env q w = (Inr r, out, w') \<Longrightarrow> r = ''Task completed!''"
  by (auto simp: process_query_with_streaming_def split: prod.splits sum.splits)

text \<open>
  C6. A task run in streaming mode leaves the shell state as it was, stored summary
  included. The streaming loop sends no summarization request to the model, and what it
  returns is the fixed string, not a summary.
\<close>

theorem streaming_keeps_summary:
  assumes "streaming_mode st" and "\<not> is_command q"
  shows "fst (chat_step env st q w) = Some st
       \<and> (\<forall>m. summary_request m \<notin> set (recorded (chat_step (recording env) st q (w, []))))
       \<and> (\<forall>r out w'. process_query_with_streaming env q w = (Inr r, out, w') \<longrightarrow>
            r = ''Task completed!'')"
proof (intro conjI allI impI)
  show "fst (chat_step env st q w) = Some st"
    by (simp add: chat_step_streaming_task[OF assms(2,1)] split: prod.splits sum.splits)
  fix m
  have "recorded (chat_step (recording env) st q (w, []))
      = recorded (process_query_with_streaming (recording env) q (w, []))"
    by (simp add: chat_step_streaming_task[OF assms(2,1)] recorded_def
        split: prod.splits sum.splits)
  with streaming_requests[of env q w]
  show "summary_request m \<notin> set (recorded (chat_step (recording env) st q (w, [])))"
    by (auto simp: summary_request_def)
next
  fix r out w' assume "process_query_with_streaming env q w = (Inr r, out, w')"
  then show "r = ''Task completed!''" by (rule streaming_returns_constant)
qed


theorem streaming_keeps_summary_witness:
  "fst (chat_step mixed_env \<lparr>shell_context = StrSummary ''old'', streaming_mode = True\<rparr> ''hi'' 0)
     = Some \<lparr>shell_context = StrSummary ''old'', streaming_mode = True\<rparr>
   \<and> length (recorded (chat_step (recording mixed_env)
        \<lparr>shell_context = StrSummary ''old'', streaming_mode = True\<rparr> ''hi'' (0, []))) = 2
   \<and> process_query_with_streaming mixed_env ''hi'' 0 =
       (Inr ''Task completed!'',
        [OutProcessing ''hi'', OutIteration 1, OutClaude ''working'', OutCalling ''add_title'',
         OutSuccess, OutCalling ''missing'', OutToolError ''Unknown tool'', OutIteration 2,
         OutClaude ''done'', OutTaskComplete], 2)"
proof -
  have s: "streaming_mode \<lparr>shell_context = StrSummary ''old'', streaming_mode = True\<rparr>" by simp
  have q: "\<not> is_command ''hi''" by code_simp
  have n: "length (recorded (chat_step (recording mixed_env)
        \<lparr>shell_context = StrSummary ''old'', streaming_mode = True\<rparr> ''hi'' (0, []))) = 2"
    by code_simp
  have run: "process_query_with_streaming mixed_env ''hi'' 0 =
       (Inr ''Task completed!'',
        [OutProcessing ''hi'', OutIteration 1, OutClaude ''working'', OutCalling ''add_title'',
         OutSuccess, OutCalling ''missing'', OutToolError ''Unknown tool'', OutIteration 2,
         OutClaude ''done'', OutTaskComplete], 2)"
    by code_simp
  from streaming_keeps_summary[OF s q, of mixed_env 0] n run show ?thesis by simp
qed

section \<open>The upload endpoint\<close>

lemma map_of_rev_key: "map_of (rev kvs) key = Some v \<Longrightarrow> key \<in> set (map fst kvs)"
  by (metis map_of_SomeD set_rev image_eqI fst_conv set_map)

text \<open>
  C8, as the code has it. For a body that is a JSON object: without a \<^verbatim>\<open>document\<close>
  member the handler answers 400 with the error payload and leaves the shared document
  alone; with one whose value the validation accepts it answers 200 with the
  confirmation and the shared document becomes the validated upload; with one the
  validation rejects, the validation's exception leaves the handler, no response is
  built and the shared document is unchanged.
\<close>

theorem upload_document_responses:
  "(''document'' \<notin> set (map fst kvs) \<longrightarrow>
      upload_document model_validate current (JObj kvs) =
        (Inr \<lparr>status_code = 400,
              body = [(''error'', ''No document provided in the request.'')]\<rparr>, current))
   \<and> (map_of (rev kvs) ''document'' = Some v \<and> model_validate v = Inr d \<longrightarrow>
      upload_document model_validate current (JObj kvs) =
        (Inr \<lparr>status_code = 200,
              body = [(''message'', ''Document uploaded successfully.'')]\<rparr>, Some d))
   \<and> (map_of (rev kvs) ''document'' = Some v \<and> model_validate v = Inl e \<longrightarrow>
      upload_document model_validate current (JObj kvs) = (Inl e, current))"
  using map_of_rev_key[of kvs "''document''" v]
  by (auto simp: upload_document_def)

theorem upload_document_responses_witness:
  "upload_document demo_validate (Some (JObj [])) (JObj [(''other'', JNull)]) =
     (Inr \<lparr>status_code = 400,
           body = [(''error'', ''No document provided in the request.'')]\<rparr>, Some (JObj []))
   \<and> upload_document demo_validate (Some (JObj []))
       (JObj [(''document'', JObj [(''name'', JStr ''Report'')])]) =
     (Inr \<lparr>status_code = 200,
           body = [(''message'', ''Document uploaded successfully.'')]\<rparr>,
      Some (JObj [(''name'', JStr ''Report'')]))
   \<and> upload_document demo_validate (Some (JObj [])) (JObj [(''document'', JNum 5)]) =
     (Inl (ValueError ''validation error''), Some (JObj []))"
proof -
  have a: "''document'' \<notin> set (map fst [(''other'', JNull)])" by simp
  have b: "map_of (rev [(''document'', JObj [(''name'', JStr ''Report'')])]) ''document''
      = Some (JObj [(''name'', JStr ''Report'')])" by simp
  have b': "demo_validate (JObj [(''name'', JStr ''Report'')]) = Inr (JObj [(''name'', JStr ''Report'')])"
    by (simp add: demo_validate_def)
  have c: "map_of (rev [(''document'', JNum 5)]) ''document'' = Some (JNum 5)" by simp
  have c': "demo_validate (JNum 5) = Inl (ValueError ''validation error'')"
    by (simp add: demo_validate_def)
  from upload_document_responses[where kvs="[(''other'', JNull)]" and model_validate=demo_validate
      and current="Some (JObj [])"] a
  have A: "upload_document demo_validate (Some (JObj [])) (JObj [(''other'', JNull)]) =
     (Inr \<lparr>status_code = 400,
           body = [(''error'', ''No document provided in the request.'')]\<rparr>, Some (JObj []))"
    by blast
  from upload_document_responses[where kvs="[(''document'', JObj [(''name'', JStr ''Report'')])]"
      and model_validate=demo_validate
      and current="Some (JObj [])"
      and v="JObj [(''name'', JStr ''Report'')]" and d="JObj [(''name'', JStr ''Report'')]"] b b'
  have B: "upload_document demo_validate (Some (JObj []))
       (JObj [(''document'', JObj [(''name'', JStr ''Report'')])]) =
     (Inr \<lparr>status_code = 200,
           body = [(''message'', ''Document uploaded successfully.'')]\<rparr>,
      Some (JObj [(''name'', JStr ''Report'')]))"
    by blast
  from upload_document_responses[where kvs="[(''document'', JNum 5)]"
      and model_validate=demo_validate
      and current="Some (JObj [])"
      and v="JNum 5" and e="ValueError ''validation error''"] c c'
  have C: "upload_document demo_validate (Some (JObj [])) (JObj [(''document'', JNum 5)]) =
     (Inl (ValueError ''validation error''), Some (JObj []))"
    by blast
  from A B C show ?thesis by blast
qed

text \<open>
  C8 as stated fails: a body with a \<^verbatim>\<open>document\<close> member that does not validate gets no
  200 response.
\<close>

theorem upload_invalid_document_counterexample:
  "py_in ''document'' (JObj [(''document'', JNum 5)]) = Inr True
   \<and> upload_document demo_validate (Some (JObj [])) (JObj [(''document'', JNum 5)]) =
       (Inl (ValueError ''validation error''), Some (JObj []))"
  by (simp add: upload_document_def demo_validate_def)

section \<open>Closing the last list\<close>

text \<open>
  C9. With the shared document set and exactly one item on the stack,
  \<^verbatim>\<open>close_list_in_docling_document\<close> succeeds and leaves the stack empty; after that each
  of the six tools that change the document raises the stack-size-zero error and
  changes nothing.
\<close>

theorem close_list_single_item:
  assumes "document st = Some doc" and "stack_cache st = [i]"
  shows "close_list_in_docling_document eng st =
           (Inr (export_to_dict eng doc), \<lparr>document = Some doc, stack_cache = []\<rparr>)
       \<and> (let st' = snd (close_list_in_docling_document eng st) in
            add_title_to_docling_document eng title st' = (Inl stack_size_zero, st')
          \<and> add_section_heading_to_docling_document eng heading level st'
              = (Inl stack_size_zero, st')
          \<and> add_paragraph_to_docling_document eng para st' = (Inl stack_size_zero, st')
          \<and> open_list_in_docling_document eng st' = (Inl stack_size_zero, st')
          \<and> add_list_items_to_list_in_docling_document eng list_items st'
              = (Inl stack_size_zero, st')
          \<and> add_table_in_html_format_to_docling_document eng html captions footnotes st'
              = (Inl stack_size_zero, st'))"
proof -
  have c: "close_list_in_docling_document eng st =
           (Inr (export_to_dict eng doc), \<lparr>document = Some doc, stack_cache = []\<rparr>)"
    using assms by (simp add: close_list_in_docling_document_def)
  show ?thesis
    unfolding c
    by (simp add: add_title_to_docling_document_def
        add_section_heading_to_docling_document_def add_paragraph_to_docling_document_def
        open_list_in_docling_document_def add_list_items_to_list_in_docling_document_def
        add_table_in_html_format_to_docling_document_def)
qed

theorem close_list_single_item_witness:
  "close_list_in_docling_document demo_engine
       \<lparr>document = Some [''Report''], stack_cache = [NodeItem ''title'']\<rparr> =
     (Inr (JArr [JStr ''Report'']), \<lparr>document = Some [''Report''], stack_cache = []\<rparr>)
   \<and> add_paragraph_to_docling_document demo_engine ''text''
       \<lparr>document = Some [''Report''], stack_cache = []\<rparr> =
     (Inl (ValueError
        ''Stack size is zero for the shared Docling Document. Abort document generation''),
      \<lparr>document = Some [''Report''], stack_cache = []\<rparr>)
   \<and> open_list_in_docling_document demo_engine
       \<lparr>document = Some [''Report''], stack_cache = []\<rparr> =
     (Inl (ValueError
        ''Stack size is zero for the shared Docling Document. Abort document generation''),
      \<lparr>document = Some [''Report''], stack_cache = []\<rparr>)"
proof -
  have d: "document \<lparr>document = Some [''Report''], stack_cache = [NodeItem ''title'']\<rparr>
      = Some [''Report'']" by simp
  have s: "stack_cache \<lparr>document = Some [''Report''], stack_cache = [NodeItem ''title'']\<rparr>
      = [NodeItem ''title'']" by simp
  have e: "export_to_dict demo_engine [''Report''] = JArr [JStr ''Report'']"
    by (simp add: demo_engine_def)
  note th = close_list_single_item[OF d s, where eng=demo_engine and para="''text''"]
  from th have c: "close_list_in_docling_document demo_engine
       \<lparr>document = Some [''Report''], stack_cache = [NodeItem ''title'']\<rparr> =
     (Inr (export_to_dict demo_engine [''Report'']),
      \<lparr>document = Some [''Report''], stack_cache = []\<rparr>)"
    by (rule conjunct1)
  from th have r: "add_paragraph_to_docling_document demo_engine ''text''
       \<lparr>document = Some [''Report''], stack_cache = []\<rparr> =
     (Inl stack_size_zero, \<lparr>document = Some [''Report''], stack_cache = []\<rparr>)
   \<and> open_list_in_docling_document demo_engine
       \<lparr>document = Some [''Report''], stack_cache = []\<rparr> =
     (Inl stack_size_zero, \<lparr>document = Some [''Report''], stack_cache = []\<rparr>)"
    unfolding c by (simp add: Let_def)
  from c e r show ?thesis by (simp add: stack_size_zero_def)
qed

end
